theory Spec2Isabelle
  imports Complex_Main "HOL-Library.Sublist" "HOL-Library.Multiset"
begin

section \<open>Values received from the server\<close>

text \<open>
  \<^verbatim>\<open>response.json()\<close> yields an arbitrary parsed JSON value, which the client reads
  as \<^verbatim>\<open>any\<close>. A parsed number is a double: finite doubles are rationals, and every
  operation the client applies to a number (truthiness, comparison with 60 and 40,
  copying) is exact on them, so a finite number is modelled by the rational it
  denotes; an overflowing literal parses to an infinity. A parsed value is never NaN.
  Zero stands for both signed zeros: both are falsy and compare alike.
\<close>

datatype jnumber = Fin rat | PosInf | NegInf

datatype json =
    JNull
  | JBool bool
  | JNum jnumber
  | JStr string
  | JArr "json list"
  | JObj "(string \<times> json) list"

text \<open>
  A thrown value: an \<^verbatim>\<open>Error\<close> (of any subclass) with its message, or a value that
  is not an instance of \<^verbatim>\<open>Error\<close>.
\<close>

datatype thrown = ErrorObj string | NonError

subsection \<open>Truthiness and property reads\<close>

text \<open>
  The property names the client reads. None of them is defined on the prototype of
  objects, arrays, strings, numbers or booleans, so a read yields the own property
  of an object and \<^verbatim>\<open>undefined\<close> (here \<open>None\<close>) on every other value except
  \<^verbatim>\<open>null\<close>, where the read throws a TypeError (message as V8 prints it).
\<close>

datatype property = P_score | P_extracted_text | P_fields | P_status | P_detected

fun prop_name :: "property \<Rightarrow> string" where
  "prop_name P_score = ''score''"
| "prop_name P_extracted_text = ''extracted_text''"
| "prop_name P_fields = ''fields''"
| "prop_name P_status = ''status''"
| "prop_name P_detected = ''detected''"

fun get_prop :: "json \<Rightarrow> property \<Rightarrow> thrown + json option" where
  "get_prop JNull p =
     Inl (ErrorObj (''Cannot read properties of null (reading '' @ [CHR 0x27] @ prop_name p
                    @ [CHR 0x27] @ '')''))"
| "get_prop (JObj kvs) p = Inr (map_of kvs (prop_name p))"
| "get_prop _ p = Inr None"

text \<open>ToBoolean; \<open>None\<close> is \<^verbatim>\<open>undefined\<close>.\<close>

fun truthy :: "json option \<Rightarrow> bool" where
  "truthy None = False"
| "truthy (Some JNull) = False"
| "truthy (Some (JBool b)) = b"
| "truthy (Some (JNum n)) = (n \<noteq> Fin 0)"
| "truthy (Some (JStr s)) = (s \<noteq> [])"
| "truthy (Some (JArr xs)) = True"
| "truthy (Some (JObj kvs)) = True"

text \<open>\<^verbatim>\<open>a || b\<close>: the left operand when it is truthy, otherwise the right one.\<close>

fun or_else :: "json option \<Rightarrow> json \<Rightarrow> json" where
  "or_else None d = d"
| "or_else (Some v) d = (if truthy (Some v) then v else d)"

text \<open>
  \<^verbatim>\<open>a || e\<close> where evaluating \<open>e\<close> may throw: \<open>e\<close> is evaluated only when \<open>a\<close> is
  falsy.
\<close>

fun or_else_lazy :: "json option \<Rightarrow> thrown + json \<Rightarrow> thrown + json" where
  "or_else_lazy None e = e"
| "or_else_lazy (Some v) e = (if truthy (Some v) then Inr v else e)"

section \<open>Numbers and comparison\<close>

fun num_ge :: "jnumber \<Rightarrow> rat \<Rightarrow> bool" where
  "num_ge (Fin q) k = (k \<le> q)"
| "num_ge PosInf k = True"
| "num_ge NegInf k = False"

fun num_lt :: "jnumber \<Rightarrow> rat \<Rightarrow> bool" where
  "num_lt (Fin q) k = (q < k)"
| "num_lt PosInf k = False"
| "num_lt NegInf k = True"

text \<open>
  ToNumber, with \<open>None\<close> for NaN. On \<^verbatim>\<open>undefined\<close>, \<^verbatim>\<open>null\<close>, booleans and numbers the
  language fixes the result. On strings, arrays and objects the result comes from the
  runtime's ToPrimitive and string-to-number conversion (parsing, rounding to a double,
  or a TypeError for an object that hides \<^verbatim>\<open>toString\<close>); that conversion is not code
  of this repository and is a parameter of the model.
\<close>

type_synonym coercion = "json \<Rightarrow> thrown + jnumber option"

fun ToNumber :: "coercion \<Rightarrow> json option \<Rightarrow> thrown + jnumber option" where
  "ToNumber c None = Inr None"
| "ToNumber c (Some JNull) = Inr (Some (Fin 0))"
| "ToNumber c (Some (JBool b)) = Inr (Some (Fin (if b then 1 else 0)))"
| "ToNumber c (Some (JNum n)) = Inr (Some n)"
| "ToNumber c (Some (JStr s)) = c (JStr s)"
| "ToNumber c (Some (JArr xs)) = c (JArr xs)"
| "ToNumber c (Some (JObj kvs)) = c (JObj kvs)"

text \<open>\<^verbatim>\<open>v >= k\<close> for a numeric literal \<open>k\<close>: false when \<open>v\<close> converts to NaN.\<close>

definition js_ge :: "coercion \<Rightarrow> json option \<Rightarrow> rat \<Rightarrow> thrown + bool" where
  "js_ge c v k =
     (case ToNumber c v of
        Inl e \<Rightarrow> Inl e
      | Inr None \<Rightarrow> Inr False
      | Inr (Some n) \<Rightarrow> Inr (num_ge n k))"

text \<open>Sequencing of steps that may throw: the first thrown value ends the block.\<close>

definition bind_thrown :: "thrown + 'a \<Rightarrow> ('a \<Rightarrow> thrown + 'b) \<Rightarrow> thrown + 'b" where
  "bind_thrown m f = (case m of Inl e \<Rightarrow> Inl e | Inr x \<Rightarrow> f x)"

text \<open>The decimal rendering of a status code inside a template literal.\<close>

fun decimal :: "nat \<Rightarrow> string" where
  "decimal n =
     (if n < 10 then [''0123456789'' ! n]
      else decimal (n div 10) @ [''0123456789'' ! (n mod 10)])"

declare decimal.simps [simp del]

section \<open>The types of the client\<close>

text \<open>
  The interface \<^verbatim>\<open>ComplianceField\<close>; its optional \<^verbatim>\<open>value\<close> is \<open>field_value\<close> here.
\<close>

record ComplianceField =
  name :: string
  detected :: bool
  field_value :: "string option"
  icon :: string

text \<open>
  The interface \<^verbatim>\<open>ComplianceResult\<close>. The client copies what the server sent without
  checking it, so at run time each field holds whatever JSON value was received.
  The field \<^verbatim>\<open>fields\<close> is \<open>result_fields\<close> here.
\<close>

record ComplianceResult =
  score :: json
  extractedText :: json
  result_fields :: json
  status :: json

record APIResponse =
  success :: bool
  data :: "ComplianceResult option"
  error :: "string option"

text \<open>A JSON value read at the interface \<^verbatim>\<open>ComplianceField\<close>, when it conforms to it.\<close>

definition asComplianceField :: "json \<Rightarrow> ComplianceField option" where
  "asComplianceField v =
     (case v of
        JObj kvs \<Rightarrow>
          (case (map_of kvs ''name'', map_of kvs ''detected'', map_of kvs ''icon'') of
             (Some (JStr n), Some (JBool d), Some (JStr i)) \<Rightarrow>
               (case map_of kvs ''value'' of
                  None \<Rightarrow> Some \<lparr>name = n, detected = d, field_value = None, icon = i\<rparr>
                | Some (JStr x) \<Rightarrow>
                    Some \<lparr>name = n, detected = d, field_value = Some x, icon = i\<rparr>
                | Some _ \<Rightarrow> None)
           | _ \<Rightarrow> None)
      | _ \<Rightarrow> None)"

section \<open>checkCompliance\<close>

text \<open>
  What \<^verbatim>\<open>fetch\<close> resolves to: the \<^verbatim>\<open>ok\<close> flag, the status code (\<^verbatim>\<open>response.status\<close>),
  and the outcomes of \<^verbatim>\<open>response.json()\<close> and \<^verbatim>\<open>response.text()\<close>, each of which may
  throw.
\<close>

record Response =
  ok :: bool
  status_code :: nat
  json_body :: "thrown + json"
  text_body :: "thrown + string"

text \<open>The inline literal used when the response brings no field list.\<close>

definition defaultFields :: json where
  "defaultFields = JArr
     [JObj [(''name'', JStr ''MRP''), (''detected'', JBool False), (''icon'', JStr ''rupee'')],
      JObj [(''name'', JStr ''Net Quantity''), (''detected'', JBool False), (''icon'', JStr ''package'')],
      JObj [(''name'', JStr ''Manufacturer''), (''detected'', JBool False), (''icon'', JStr ''building'')],
      JObj [(''name'', JStr ''Country of Origin''), (''detected'', JBool False), (''icon'', JStr ''globe'')],
      JObj [(''name'', JStr ''Manufacturing Date''), (''detected'', JBool False), (''icon'', JStr ''calendar'')]]"

text \<open>
  \<^verbatim>\<open>data.score >= 60 ? 'pass' : data.score >= 40 ? 'partial' : 'fail'\<close>
\<close>

definition derive_status :: "coercion \<Rightarrow> json \<Rightarrow> thrown + json" where
  "derive_status c d =
     bind_thrown (get_prop d P_score) (\<lambda>s.
     bind_thrown (js_ge c s 60) (\<lambda>b.
       if b then Inr (JStr ''pass'')
       else
         bind_thrown (get_prop d P_score) (\<lambda>s'.
         bind_thrown (js_ge c s' 40) (\<lambda>b'.
           if b' then Inr (JStr ''partial'') else Inr (JStr ''fail'')))))"

text \<open>
  The object literal \<^verbatim>\<open>complianceResult\<close>, its properties evaluated in source order.
\<close>

definition complianceResult :: "coercion \<Rightarrow> json \<Rightarrow> thrown + ComplianceResult" where
  "complianceResult c d =
     bind_thrown (get_prop d P_score) (\<lambda>s.
     bind_thrown (get_prop d P_extracted_text) (\<lambda>t.
     bind_thrown (get_prop d P_fields) (\<lambda>f.
     bind_thrown (get_prop d P_status) (\<lambda>st.
     bind_thrown (or_else_lazy st (derive_status c d)) (\<lambda>st'.
       Inr \<lparr>score = or_else s (JNum (Fin 0)),
            extractedText = or_else t (JStr []),
            result_fields = or_else f defaultFields,
            status = st'\<rparr>)))))"

text \<open>The catch block: the message of an Error, a fixed text for anything else.\<close>

fun error_message :: "thrown \<Rightarrow> string" where
  "error_message (ErrorObj m) = m"
| "error_message NonError = ''An error occurred''"

definition respond :: "thrown + ComplianceResult \<Rightarrow> APIResponse" where
  "respond r =
     (case r of
        Inr cr \<Rightarrow> \<lparr>success = True, data = Some cr, error = None\<rparr>
      | Inl e \<Rightarrow> \<lparr>success = False, data = None, error = Some (error_message e)\<rparr>)"

text \<open>
  \<^verbatim>\<open>checkCompliance\<close> of \<^verbatim>\<open>services/api.ts\<close>. The network is the function \<open>fetch\<close>
  from the uploaded file to a thrown value or a response. Console output is not part
  of the returned value and is left out.
\<close>

definition checkCompliance_try ::
  "coercion \<Rightarrow> ('f \<Rightarrow> thrown + Response) \<Rightarrow> 'f \<Rightarrow> thrown + ComplianceResult" where
  "checkCompliance_try c fetch file =
     bind_thrown (fetch file) (\<lambda>response.
       if \<not> ok response
       then Inl (ErrorObj (''HTTP error! status: '' @ decimal (status_code response)))
       else bind_thrown (json_body response) (\<lambda>d. complianceResult c d))"

definition checkCompliance ::
  "coercion \<Rightarrow> ('f \<Rightarrow> thrown + Response) \<Rightarrow> 'f \<Rightarrow> APIResponse" where
  "checkCompliance c fetch file = respond (checkCompliance_try c fetch file)"

text \<open>
  The second \<^verbatim>\<open>checkCompliance\<close> (the variant with a fixed base URL): on a response
  that is not ok it first reads the body as text and puts it into the message.
\<close>

definition checkCompliance_variant_try ::
  "coercion \<Rightarrow> ('f \<Rightarrow> thrown + Response) \<Rightarrow> 'f \<Rightarrow> thrown + ComplianceResult" where
  "checkCompliance_variant_try c fetch file =
     bind_thrown (fetch file) (\<lambda>response.
       if \<not> ok response
       then bind_thrown (text_body response) (\<lambda>errorText.
              Inl (ErrorObj (''HTTP error! status: '' @ decimal (status_code response)
                             @ '', message: '' @ errorText)))
       else bind_thrown (json_body response) (\<lambda>d. complianceResult c d))"

definition checkCompliance_variant ::
  "coercion \<Rightarrow> ('f \<Rightarrow> thrown + Response) \<Rightarrow> 'f \<Rightarrow> APIResponse" where
  "checkCompliance_variant c fetch file = respond (checkCompliance_variant_try c fetch file)"

section \<open>ComplianceResults: score bands and the two field lists\<close>

datatype status_icon = CheckCircle | AlertCircle | XCircle

definition getScoreColor :: "coercion \<Rightarrow> json \<Rightarrow> thrown + string" where
  "getScoreColor c s =
     bind_thrown (js_ge c (Some s) 60) (\<lambda>b.
       if b then Inr ''text-green-600 bg-green-100''
       else
         bind_thrown (js_ge c (Some s) 40) (\<lambda>b'.
           if b' then Inr ''text-yellow-600 bg-yellow-100''
           else Inr ''text-red-600 bg-red-100''))"

definition getScoreBorderColor :: "coercion \<Rightarrow> json \<Rightarrow> thrown + string" where
  "getScoreBorderColor c s =
     bind_thrown (js_ge c (Some s) 60) (\<lambda>b.
       if b then Inr ''border-green-200''
       else
         bind_thrown (js_ge c (Some s) 40) (\<lambda>b'.
           if b' then Inr ''border-yellow-200'' else Inr ''border-red-200''))"

definition getStatusIcon :: "coercion \<Rightarrow> json \<Rightarrow> thrown + status_icon" where
  "getStatusIcon c s =
     bind_thrown (js_ge c (Some s) 60) (\<lambda>b.
       if b then Inr CheckCircle
       else
         bind_thrown (js_ge c (Some s) 40) (\<lambda>b'.
           if b' then Inr AlertCircle else Inr XCircle))"

text \<open>
  \<^verbatim>\<open>Array.prototype.filter\<close> with a callback that may throw: the elements are visited
  from the left, and the first throw ends the call.
\<close>

fun filter_js :: "(json \<Rightarrow> thrown + bool) \<Rightarrow> json list \<Rightarrow> thrown + json list" where
  "filter_js p [] = Inr []"
| "filter_js p (x # xs) =
     (case p x of
        Inl e \<Rightarrow> Inl e
      | Inr b \<Rightarrow>
          (case filter_js p xs of
             Inl e \<Rightarrow> Inl e
           | Inr ys \<Rightarrow> Inr (if b then x # ys else ys)))"

text \<open>
  \<^verbatim>\<open>result.fields.filter(f)\<close>: only an array has the method; a parsed JSON value
  never holds a function, so on every other value the call throws a TypeError.
\<close>

fun fields_filter :: "(json \<Rightarrow> thrown + bool) \<Rightarrow> json \<Rightarrow> thrown + json list" where
  "fields_filter p (JArr xs) = filter_js p xs"
| "fields_filter p JNull =
     Inl (ErrorObj ''Cannot read properties of null (reading 'filter')'')"
| "fields_filter p v = Inl (ErrorObj ''result.fields.filter is not a function'')"

definition is_detected :: "json \<Rightarrow> thrown + bool" where
  "is_detected field = bind_thrown (get_prop field P_detected) (\<lambda>v. Inr (truthy v))"

definition is_missing :: "json \<Rightarrow> thrown + bool" where
  "is_missing field = bind_thrown (get_prop field P_detected) (\<lambda>v. Inr (\<not> truthy v))"

definition detectedFields :: "ComplianceResult \<Rightarrow> thrown + json list" where
  "detectedFields result = fields_filter is_detected (result_fields result)"

definition missingFields :: "ComplianceResult \<Rightarrow> thrown + json list" where
  "missingFields result = fields_filter is_missing (result_fields result)"

section \<open>The scoring rules in the words of the specification\<close>

text \<open>
  Section 4.5 of the specification, for comparison with the client: every configured
  field weighs \<open>100 / fieldCount\<close>, the score is the rounded sum of the weights of the
  detected fields, and the status follows from the score by the thresholds 60 and 40.
\<close>

definition field_detected :: "json \<Rightarrow> bool" where
  "field_detected f = (case f of JObj kvs \<Rightarrow> map_of kvs ''detected'' = Some (JBool True) | _ \<Rightarrow> False)"

definition spec_score :: "json \<Rightarrow> int" where
  "spec_score fs =
     (case fs of
        JArr xs \<Rightarrow>
          round (\<Sum>f\<leftarrow>xs. if field_detected f then (100 :: rat) / of_nat (length xs) else 0)
      | _ \<Rightarrow> 0)"

definition spec_status :: "jnumber \<Rightarrow> json" where
  "spec_status n =
     (if num_ge n 60 then JStr ''pass''
      else if num_ge n 40 then JStr ''partial''
      else JStr ''fail'')"

text \<open>
  Whether a parsed body carries a property: only an object carries properties of
  these names.
\<close>

definition carries :: "json \<Rightarrow> property \<Rightarrow> bool" where
  "carries d p = (case d of JObj kvs \<Rightarrow> map_of kvs (prop_name p) \<noteq> None | _ \<Rightarrow> False)"

section \<open>Concrete environments\<close>

text \<open>
  A response with status 200 whose body parses to \<open>d\<close>; a network on which
  \<^verbatim>\<open>fetch\<close> has a fixed outcome; a runtime whose conversion of strings, arrays and
  objects always yields NaN.
\<close>

definition ok_response :: "json \<Rightarrow> Response" where
  "ok_response d = \<lparr>ok = True, status_code = 200, json_body = Inr d, text_body = Inr []\<rparr>"

definition network :: "thrown + Response \<Rightarrow> unit \<Rightarrow> thrown + Response" where
  "network outcome u = outcome"

definition nan_coercion :: coercion where
  "nan_coercion v = Inr None"

section \<open>FileUpload: the two handlers that offer a file\<close>

text \<open>A browser \<^verbatim>\<open>File\<close> with its name, its declared MIME type and its size in bytes.\<close>

record File =
  file_name :: string
  type :: string
  file_size :: nat

text \<open>
  What a handler did: whether it called \<^verbatim>\<open>preventDefault\<close>, and the arguments of
  its calls of \<^verbatim>\<open>onFileSelect\<close>, in order.
\<close>

record effects =
  defaultPrevented :: bool
  onFileSelect :: "File list"

definition acceptedTypes :: "string list" where
  "acceptedTypes = [''image/jpeg'', ''image/png'', ''image/webp'']"

text \<open>
  \<^verbatim>\<open>files?.[0]\<close>: the list of files is absent (\<open>None\<close>) or a FileList whose first
  entry may be missing.
\<close>

fun first_file :: "File list option \<Rightarrow> File option" where
  "first_file None = None"
| "first_file (Some []) = None"
| "first_file (Some (f # fs)) = Some f"

definition handleFileChange :: "File list option \<Rightarrow> effects" where
  "handleFileChange files =
     (case first_file files of
        None \<Rightarrow> \<lparr>defaultPrevented = False, onFileSelect = []\<rparr>
      | Some f \<Rightarrow>
          if type f \<in> set acceptedTypes
          then \<lparr>defaultPrevented = False, onFileSelect = [f]\<rparr>
          else \<lparr>defaultPrevented = False, onFileSelect = []\<rparr>)"

definition handleDrop :: "File list option \<Rightarrow> effects" where
  "handleDrop files =
     (case first_file files of
        None \<Rightarrow> \<lparr>defaultPrevented = True, onFileSelect = []\<rparr>
      | Some f \<Rightarrow>
          if type f \<in> set acceptedTypes
          then \<lparr>defaultPrevented = True, onFileSelect = [f]\<rparr>
          else \<lparr>defaultPrevented = True, onFileSelect = []\<rparr>)"

section \<open>Properties\<close>

subsection \<open>Auxiliary facts\<close>

lemma bind_thrown_simps [simp]:
  "bind_thrown (Inl e) f = Inl e"
  "bind_thrown (Inr x) f = f x"
  by (simp_all add: bind_thrown_def)

lemma checkCompliance_ok:
  assumes "fetch file = Inr resp" "ok resp" "json_body resp = Inr d"
  shows "checkCompliance c fetch file = respond (complianceResult c d)"
  using assms by (simp add: checkCompliance_def checkCompliance_try_def)

lemma num_lt_iff: "num_lt n k \<longleftrightarrow> \<not> num_ge n k"
  by (cases n) auto

lemma num_ge_60_40: "num_ge n 60 \<Longrightarrow> num_ge n 40"
  by (cases n) auto

lemma derive_status_eq:
  "get_prop d P_score = Inr s \<Longrightarrow>
   derive_status c d =
     (case ToNumber c s of
        Inl e \<Rightarrow> Inl e
      | Inr None \<Rightarrow> Inr (JStr ''fail'')
      | Inr (Some n) \<Rightarrow> Inr (spec_status n))"
  by (auto simp: derive_status_def js_ge_def spec_status_def split: sum.splits option.splits)

lemma get_prop_defined: "get_prop d p = Inr v \<Longrightarrow> \<exists>w. get_prop d q = Inr w"
  by (cases d) auto

text \<open>
  On a body that is not \<^verbatim>\<open>null\<close> no property read throws, and the object literal
  is built from the four reads.
\<close>

lemma complianceResult_eq:
  assumes "get_prop d P_score = Inr s" "get_prop d P_extracted_text = Inr t"
    and "get_prop d P_fields = Inr f" "get_prop d P_status = Inr st"
  shows "complianceResult c d =
           bind_thrown (or_else_lazy st (derive_status c d)) (\<lambda>st'.
             Inr \<lparr>score = or_else s (JNum (Fin 0)), extractedText = or_else t (JStr []),
                  result_fields = or_else f defaultFields, status = st'\<rparr>)"
  using assms by (simp add: complianceResult_def)

lemma complianceResult_status:
  assumes "get_prop d P_score = Inr s" "get_prop d P_status = Inr st"
  shows "\<exists>t f. complianceResult c d =
           bind_thrown (or_else_lazy st (derive_status c d)) (\<lambda>st'.
             Inr \<lparr>score = or_else s (JNum (Fin 0)), extractedText = t,
                  result_fields = f, status = st'\<rparr>)"
proof -
  obtain t f where "get_prop d P_extracted_text = Inr t" "get_prop d P_fields = Inr f"
    using get_prop_defined [OF assms(1)] by blast
  with assms have "complianceResult c d =
      bind_thrown (or_else_lazy st (derive_status c d)) (\<lambda>st'.
        Inr \<lparr>score = or_else s (JNum (Fin 0)), extractedText = or_else t (JStr []),
             result_fields = or_else f defaultFields, status = st'\<rparr>)"
    by (simp add: complianceResult_eq)
  then show ?thesis by blast
qed

lemma or_else_lazy_truthy: "truthy st \<Longrightarrow> or_else_lazy st e = Inr (or_else st x)"
  by (cases st) auto

lemma or_else_lazy_falsy: "\<not> truthy st \<Longrightarrow> or_else_lazy st e = e"
  by (cases st) auto

lemma or_else_num: "or_else (Some (JNum n)) (JNum (Fin 0)) = JNum n"
  by simp

lemma truthy_or_else: "truthy st \<Longrightarrow> Some (or_else st x) = st"
  by (cases st) auto

subsection \<open>Status bands\<close>

text \<open>
  C1. When the response is ok, its body carries a numeric score and no status, the
  result has that score, and its status is pass exactly when the score is at least 60,
  partial exactly when it is at least 40 and below 60, and fail exactly when it is
  below 40; the colour and the icon that ComplianceResults chooses for the score follow
  the same three bands.
\<close>

theorem status_bands:
  assumes "fetch file = Inr resp" "ok resp" "json_body resp = Inr d"
    and "get_prop d P_score = Inr (Some (JNum n))"
    and "get_prop d P_status = Inr None"
  shows "\<exists>r. checkCompliance c fetch file = \<lparr>success = True, data = Some r, error = None\<rparr>
       \<and> score r = JNum n
       \<and> (status r = JStr ''pass'' \<longleftrightarrow> num_ge n 60)
       \<and> (status r = JStr ''partial'' \<longleftrightarrow> num_ge n 40 \<and> num_lt n 60)
       \<and> (status r = JStr ''fail'' \<longleftrightarrow> num_lt n 40)
       \<and> (getScoreColor c (score r) = Inr ''text-green-600 bg-green-100'' \<longleftrightarrow> num_ge n 60)
       \<and> (getScoreColor c (score r) = Inr ''text-yellow-600 bg-yellow-100''
            \<longleftrightarrow> num_ge n 40 \<and> num_lt n 60)
       \<and> (getScoreColor c (score r) = Inr ''text-red-600 bg-red-100'' \<longleftrightarrow> num_lt n 40)
       \<and> (getStatusIcon c (score r) = Inr CheckCircle \<longleftrightarrow> num_ge n 60)
       \<and> (getStatusIcon c (score r) = Inr AlertCircle \<longleftrightarrow> num_ge n 40 \<and> num_lt n 60)
       \<and> (getStatusIcon c (score r) = Inr XCircle \<longleftrightarrow> num_lt n 40)"
proof -
  have st: "derive_status c d =
      Inr (if num_ge n 60 then JStr ''pass''
           else if num_ge n 40 then JStr ''partial'' else JStr ''fail'')"
    using assms(4) by (simp add: derive_status_def js_ge_def)
  obtain t f where cr: "complianceResult c d =
      Inr \<lparr>score = JNum n, extractedText = t, result_fields = f,
           status = (if num_ge n 60 then JStr ''pass''
                     else if num_ge n 40 then JStr ''partial'' else JStr ''fail'')\<rparr>"
    using complianceResult_status [OF assms(4,5), of c]
    unfolding or_else_num or_else_lazy.simps st bind_thrown_simps by blast
  have col: "getScoreColor c (JNum n) =
      Inr (if num_ge n 60 then ''text-green-600 bg-green-100''
           else if num_ge n 40 then ''text-yellow-600 bg-yellow-100''
           else ''text-red-600 bg-red-100'')"
    by (simp add: getScoreColor_def js_ge_def)
  have ico: "getStatusIcon c (JNum n) =
      Inr (if num_ge n 60 then CheckCircle else if num_ge n 40 then AlertCircle else XCircle)"
    by (simp add: getStatusIcon_def js_ge_def)
  show ?thesis
    using num_ge_60_40 [of n] checkCompliance_ok [of fetch "file" resp d c] assms(1-3)
    by (simp add: cr respond_def col ico num_lt_iff)
qed

theorem status_bands_witness:
  "network (Inr (ok_response (JObj [(''score'', JNum (Fin 45))]))) ()
     = Inr (ok_response (JObj [(''score'', JNum (Fin 45))]))
   \<and> ok (ok_response (JObj [(''score'', JNum (Fin 45))]))
   \<and> json_body (ok_response (JObj [(''score'', JNum (Fin 45))]))
       = Inr (JObj [(''score'', JNum (Fin 45))])
   \<and> get_prop (JObj [(''score'', JNum (Fin 45))]) P_score = Inr (Some (JNum (Fin 45)))
   \<and> get_prop (JObj [(''score'', JNum (Fin 45))]) P_status = Inr None
   \<and> (\<exists>r. checkCompliance nan_coercion
             (network (Inr (ok_response (JObj [(''score'', JNum (Fin 45))])))) ()
            = \<lparr>success = True, data = Some r, error = None\<rparr>
          \<and> score r = JNum (Fin 45) \<and> status r = JStr ''partial''
          \<and> getScoreColor nan_coercion (score r) = Inr ''text-yellow-600 bg-yellow-100''
          \<and> getStatusIcon nan_coercion (score r) = Inr AlertCircle)"
  using status_bands
    [of "network (Inr (ok_response (JObj [(''score'', JNum (Fin 45))])))" "()"
        "ok_response (JObj [(''score'', JNum (Fin 45))])"
        "JObj [(''score'', JNum (Fin 45))]" "Fin 45" nan_coercion]
  by (auto simp: network_def ok_response_def)

subsection \<open>Where the status comes from\<close>

text \<open>
  C2, as the client does it. On an ok response with a parsed body that is not
  \<^verbatim>\<open>null\<close>, the returned status is the status carried by the body whenever that value
  is truthy; only otherwise is it derived from the body's score: by the thresholds
  60 and 40 when the score converts to a number, fail when it converts to NaN, and no
  result at all when the conversion throws.
\<close>

theorem status_server_or_derived:
  assumes "fetch file = Inr resp" "ok resp" "json_body resp = Inr d"
    and "get_prop d P_score = Inr s"
    and "get_prop d P_status = Inr st"
  shows "map_option status (data (checkCompliance c fetch file)) =
           (if truthy st then st
            else case ToNumber c s of
                   Inl e \<Rightarrow> None
                 | Inr None \<Rightarrow> Some (JStr ''fail'')
                 | Inr (Some n) \<Rightarrow> Some (spec_status n))"
proof -
  obtain t f where cr: "complianceResult c d =
      bind_thrown (or_else_lazy st (derive_status c d)) (\<lambda>st'.
        Inr \<lparr>score = or_else s (JNum (Fin 0)), extractedText = t,
             result_fields = f, status = st'\<rparr>)"
    using complianceResult_status [OF assms(4,5), of c] by blast
  have cc: "checkCompliance c fetch file = respond (complianceResult c d)"
    using checkCompliance_ok [of fetch "file" resp d c] assms(1-3) by simp
  show ?thesis
  proof (cases "truthy st")
    case True
    then show ?thesis
      by (simp add: cc cr respond_def or_else_lazy_truthy [of st _ JNull] truthy_or_else)
  next
    case False
    then show ?thesis
      by (simp add: cc cr respond_def or_else_lazy_falsy derive_status_eq [OF assms(4)]
            split: sum.splits option.splits)
  qed
qed

theorem status_server_or_derived_witness:
  "network (Inr (ok_response (JObj [(''score'', JNum (Fin 10)), (''status'', JStr ''pass'')]))) ()
     = Inr (ok_response (JObj [(''score'', JNum (Fin 10)), (''status'', JStr ''pass'')]))
   \<and> ok (ok_response (JObj [(''score'', JNum (Fin 10)), (''status'', JStr ''pass'')]))
   \<and> json_body (ok_response (JObj [(''score'', JNum (Fin 10)), (''status'', JStr ''pass'')]))
       = Inr (JObj [(''score'', JNum (Fin 10)), (''status'', JStr ''pass'')])
   \<and> get_prop (JObj [(''score'', JNum (Fin 10)), (''status'', JStr ''pass'')]) P_score
       = Inr (Some (JNum (Fin 10)))
   \<and> get_prop (JObj [(''score'', JNum (Fin 10)), (''status'', JStr ''pass'')]) P_status
       = Inr (Some (JStr ''pass''))
   \<and> map_option status (data (checkCompliance nan_coercion
         (network (Inr (ok_response (JObj [(''score'', JNum (Fin 10)), (''status'', JStr ''pass'')]))))
         ()))
       = Some (JStr ''pass'')"
  using status_server_or_derived
    [of "network (Inr (ok_response (JObj [(''score'', JNum (Fin 10)), (''status'', JStr ''pass'')])))"
        "()" "ok_response (JObj [(''score'', JNum (Fin 10)), (''status'', JStr ''pass'')])"
        "JObj [(''score'', JNum (Fin 10)), (''status'', JStr ''pass'')]"
        "Some (JNum (Fin 10))" "Some (JStr ''pass'')" nan_coercion]
  by (simp add: network_def ok_response_def)

text \<open>
  The claim as the specification words it fails: a body with score 10 and status
  pass is returned with status pass, while the thresholds give fail for 10.
\<close>

theorem status_override_counterexample:
  "checkCompliance nan_coercion
     (network (Inr (ok_response (JObj [(''score'', JNum (Fin 10)), (''status'', JStr ''pass'')])))) ()
   = \<lparr>success = True,
      data = Some \<lparr>score = JNum (Fin 10), extractedText = JStr [],
                   result_fields = defaultFields, status = JStr ''pass''\<rparr>,
      error = None\<rparr>
   \<and> spec_status (Fin 10) = JStr ''fail''"
  by (simp add: checkCompliance_def checkCompliance_try_def network_def ok_response_def
        complianceResult_def respond_def spec_status_def)

subsection \<open>File selection\<close>

text \<open>
  C6. A file passed to \<^verbatim>\<open>onFileSelect\<close> by the change handler or by the drop handler is
  the first offered file, and its declared MIME type is image/jpeg, image/png or
  image/webp; a file of any other type is never passed on.
\<close>

theorem onFileSelect_only_accepted:
  assumes "f \<in> set (onFileSelect (handleFileChange files))
         \<or> f \<in> set (onFileSelect (handleDrop files))"
  shows "type f = ''image/jpeg'' \<or> type f = ''image/png'' \<or> type f = ''image/webp''"
  using assms
  by (auto simp: handleFileChange_def handleDrop_def acceptedTypes_def
           split: option.splits if_splits)

theorem onFileSelect_only_accepted_witness:
  "\<lparr>file_name = ''a.png'', type = ''image/png'', file_size = 10\<rparr>
     \<in> set (onFileSelect (handleDrop (Some [\<lparr>file_name = ''a.png'', type = ''image/png'', file_size = 10\<rparr>])))
   \<and> type \<lparr>file_name = ''a.png'', type = ''image/png'', file_size = 10\<rparr> = ''image/png''"
  using onFileSelect_only_accepted
    [of "\<lparr>file_name = ''a.png'', type = ''image/png'', file_size = 10\<rparr>"
        "Some [\<lparr>file_name = ''a.png'', type = ''image/png'', file_size = 10\<rparr>]"]
  by (simp add: handleDrop_def acceptedTypes_def)

subsection \<open>Where the score comes from\<close>

text \<open>
  C3, as the client does it. On an ok response with a parsed body that is not
  \<^verbatim>\<open>null\<close>, the score of the returned result is the score carried by the body when
  that value is truthy and 0 otherwise; it is copied from the response and does not
  depend on the fields. (No result is returned only when the status has to be derived
  and the conversion of the score throws.)
\<close>

theorem score_is_server_score:
  assumes "fetch file = Inr resp" "ok resp" "json_body resp = Inr d"
    and "get_prop d P_score = Inr s"
    and "get_prop d P_status = Inr st"
  shows "map_option score (data (checkCompliance c fetch file)) =
           (if \<not> truthy st \<and> isl (ToNumber c s) then None
            else Some (or_else s (JNum (Fin 0))))"
proof -
  obtain t f where cr: "complianceResult c d =
      bind_thrown (or_else_lazy st (derive_status c d)) (\<lambda>st'.
        Inr \<lparr>score = or_else s (JNum (Fin 0)), extractedText = t,
             result_fields = f, status = st'\<rparr>)"
    using complianceResult_status [OF assms(4,5), of c] by blast
  have cc: "checkCompliance c fetch file = respond (complianceResult c d)"
    using checkCompliance_ok [of fetch "file" resp d c] assms(1-3) by simp
  show ?thesis
  proof (cases "truthy st")
    case True
    then show ?thesis
      by (simp add: cc cr respond_def or_else_lazy_truthy [of st _ JNull])
  next
    case False
    then show ?thesis
      by (simp add: cc cr respond_def or_else_lazy_falsy derive_status_eq [OF assms(4)]
            split: sum.splits option.splits)
  qed
qed

theorem score_is_server_score_witness:
  "network (Inr (ok_response (JObj [(''score'', JNum (Fin 80))]))) ()
     = Inr (ok_response (JObj [(''score'', JNum (Fin 80))]))
   \<and> ok (ok_response (JObj [(''score'', JNum (Fin 80))]))
   \<and> json_body (ok_response (JObj [(''score'', JNum (Fin 80))]))
       = Inr (JObj [(''score'', JNum (Fin 80))])
   \<and> get_prop (JObj [(''score'', JNum (Fin 80))]) P_score = Inr (Some (JNum (Fin 80)))
   \<and> get_prop (JObj [(''score'', JNum (Fin 80))]) P_status = Inr None
   \<and> map_option score (data (checkCompliance nan_coercion
         (network (Inr (ok_response (JObj [(''score'', JNum (Fin 80))])))) ()))
       = Some (JNum (Fin 80))"
  using score_is_server_score
    [of "network (Inr (ok_response (JObj [(''score'', JNum (Fin 80))])))" "()"
        "ok_response (JObj [(''score'', JNum (Fin 80))])"
        "JObj [(''score'', JNum (Fin 80))]" "Some (JNum (Fin 80))" None nan_coercion]
  by (simp add: network_def ok_response_def)

text \<open>
  The claim as the specification words it fails: a body with score 80 whose only
  field is not detected is returned with score 80, while the weighted sum over its
  fields is 0.
\<close>

theorem score_from_fields_counterexample:
  "checkCompliance nan_coercion
     (network (Inr (ok_response (JObj
        [(''score'', JNum (Fin 80)),
         (''extracted_text'', JStr ''x''),
         (''fields'', JArr [JObj [(''name'', JStr ''MRP''), (''detected'', JBool False),
                                  (''icon'', JStr ''rupee'')]]),
         (''status'', JStr ''pass'')])))) ()
   = \<lparr>success = True,
      data = Some \<lparr>score = JNum (Fin 80), extractedText = JStr ''x'',
                   result_fields = JArr [JObj [(''name'', JStr ''MRP''), (''detected'', JBool False),
                                               (''icon'', JStr ''rupee'')]],
                   status = JStr ''pass''\<rparr>,
      error = None\<rparr>
   \<and> spec_score (JArr [JObj [(''name'', JStr ''MRP''), (''detected'', JBool False),
                            (''icon'', JStr ''rupee'')]]) = 0"
  by (simp add: checkCompliance_def checkCompliance_try_def network_def ok_response_def
        complianceResult_def respond_def spec_score_def field_detected_def)

subsection \<open>Failures\<close>

lemma error_message_empty: "error_message e = [] \<longleftrightarrow> e = ErrorObj []"
  by (cases e) auto

text \<open>
  C4, as the client does it. When \<^verbatim>\<open>fetch\<close> throws, or the response is not ok, or
  reading the body as JSON throws, the returned value has success false, no data and
  an error message. For a response that is not ok the message is the text
  \<^verbatim>\<open>HTTP error! status: \<close> followed by the status code; for a thrown Error it is the
  Error's own message; for a thrown value that is not an Error it is the text
  \<^verbatim>\<open>An error occurred\<close>. It is empty only when the thrown value is an Error whose
  own message is empty.
\<close>

theorem failure_is_reported:
  assumes "fetch file = Inl e
         \<or> (fetch file = Inr resp \<and> \<not> ok resp)
         \<or> (fetch file = Inr resp \<and> ok resp \<and> json_body resp = Inl e)"
  shows "checkCompliance c fetch file =
           \<lparr>success = False, data = None,
            error = Some (if fetch file = Inr resp \<and> \<not> ok resp
                          then ''HTTP error! status: '' @ decimal (status_code resp)
                          else case e of ErrorObj m \<Rightarrow> m | NonError \<Rightarrow> ''An error occurred'')\<rparr>
       \<and> success (checkCompliance c fetch file) = False
       \<and> data (checkCompliance c fetch file) = None
       \<and> (\<exists>m. error (checkCompliance c fetch file) = Some m
            \<and> (m = [] \<longleftrightarrow>
                 fetch file = Inl (ErrorObj [])
               \<or> (fetch file = Inr resp \<and> ok resp \<and> json_body resp = Inl (ErrorObj []))))"
  using assms
  by (cases e)
     (auto simp: checkCompliance_def checkCompliance_try_def respond_def)

theorem failure_is_reported_witness:
  "checkCompliance nan_coercion
     (network (Inr \<lparr>ok = False, status_code = 404,
                    json_body = Inl (ErrorObj ''Unexpected token''),
                    text_body = Inr ''Not Found''\<rparr>)) ()
     = \<lparr>success = False, data = None, error = Some ''HTTP error! status: 404''\<rparr>
   \<and> checkCompliance nan_coercion (network (Inl (ErrorObj ''Failed to fetch''))) ()
     = \<lparr>success = False, data = None, error = Some ''Failed to fetch''\<rparr>
   \<and> checkCompliance nan_coercion (network (Inl NonError)) ()
     = \<lparr>success = False, data = None, error = Some ''An error occurred''\<rparr>
   \<and> checkCompliance nan_coercion
     (network (Inr \<lparr>ok = True, status_code = 200,
                    json_body = Inl (ErrorObj ''Unexpected token''),
                    text_body = Inr ''<html>''\<rparr>)) ()
     = \<lparr>success = False, data = None, error = Some ''Unexpected token''\<rparr>"
  using
    failure_is_reported
      [of "network (Inr \<lparr>ok = False, status_code = 404,
                         json_body = Inl (ErrorObj ''Unexpected token''),
                         text_body = Inr ''Not Found''\<rparr>)" "()"
          "ErrorObj ''Unexpected token''"
          "\<lparr>ok = False, status_code = 404, json_body = Inl (ErrorObj ''Unexpected token''),
            text_body = Inr ''Not Found''\<rparr>" nan_coercion]
    failure_is_reported
      [of "network (Inl (ErrorObj ''Failed to fetch''))" "()" "ErrorObj ''Failed to fetch''"
          "\<lparr>ok = True, status_code = 200, json_body = Inr JNull, text_body = Inr []\<rparr>"
          nan_coercion]
    failure_is_reported
      [of "network (Inl NonError)" "()" NonError
          "\<lparr>ok = True, status_code = 200, json_body = Inr JNull, text_body = Inr []\<rparr>"
          nan_coercion]
    failure_is_reported
      [of "network (Inr \<lparr>ok = True, status_code = 200,
                         json_body = Inl (ErrorObj ''Unexpected token''),
                         text_body = Inr ''<html>''\<rparr>)" "()"
          "ErrorObj ''Unexpected token''"
          "\<lparr>ok = True, status_code = 200, json_body = Inl (ErrorObj ''Unexpected token''),
            text_body = Inr ''<html>''\<rparr>" nan_coercion]
  by (simp add: network_def decimal.simps)

text \<open>
  The claim as the specification words it fails in one point: when \<^verbatim>\<open>fetch\<close> throws
  an Error with an empty message, the returned error message is empty.
\<close>

theorem empty_message_counterexample:
  "checkCompliance nan_coercion (network (Inl (ErrorObj []))) ()
   = \<lparr>success = False, data = None, error = Some []\<rparr>"
  by (simp add: checkCompliance_def checkCompliance_try_def network_def respond_def)

subsection \<open>A body without any of the four properties\<close>

lemma not_carries_get_prop:
  "d \<noteq> JNull \<Longrightarrow> \<not> carries d p \<Longrightarrow> get_prop d p = Inr None"
  by (cases d) (auto simp: carries_def)

lemma derive_status_absent:
  "get_prop d P_score = Inr None \<Longrightarrow> derive_status c d = Inr (JStr ''fail'')"
  by (simp add: derive_status_def js_ge_def)

lemma defaultFields_typed:
  "defaultFields = JArr xs \<Longrightarrow>
   map asComplianceField xs =
     [Some \<lparr>name = ''MRP'', detected = False, field_value = None, icon = ''rupee''\<rparr>,
      Some \<lparr>name = ''Net Quantity'', detected = False, field_value = None, icon = ''package''\<rparr>,
      Some \<lparr>name = ''Manufacturer'', detected = False, field_value = None, icon = ''building''\<rparr>,
      Some \<lparr>name = ''Country of Origin'', detected = False, field_value = None, icon = ''globe''\<rparr>,
      Some \<lparr>name = ''Manufacturing Date'', detected = False, field_value = None,
            icon = ''calendar''\<rparr>]"
  by (auto simp: defaultFields_def asComplianceField_def)

text \<open>
  C5, as the client does it. When the response is ok and its parsed body is not
  \<^verbatim>\<open>null\<close> and carries none of score, extracted_text, fields and status, the call
  succeeds with score 0, empty text, status fail and the five built-in fields: MRP,
  Net Quantity, Manufacturer, Country of Origin and Manufacturing Date in this order,
  each once, not detected and without a value.
\<close>

theorem empty_body_default_result:
  assumes "fetch file = Inr resp" "ok resp" "json_body resp = Inr d"
    and "d \<noteq> JNull"
    and "\<not> carries d P_score" "\<not> carries d P_extracted_text"
    and "\<not> carries d P_fields" "\<not> carries d P_status"
  shows "\<exists>xs. checkCompliance c fetch file =
              \<lparr>success = True,
               data = Some \<lparr>score = JNum (Fin 0), extractedText = JStr [],
                            result_fields = JArr xs, status = JStr ''fail''\<rparr>,
               error = None\<rparr>
            \<and> JArr xs = defaultFields
            \<and> map asComplianceField xs =
                [Some \<lparr>name = ''MRP'', detected = False, field_value = None, icon = ''rupee''\<rparr>,
                 Some \<lparr>name = ''Net Quantity'', detected = False, field_value = None,
                       icon = ''package''\<rparr>,
                 Some \<lparr>name = ''Manufacturer'', detected = False, field_value = None,
                       icon = ''building''\<rparr>,
                 Some \<lparr>name = ''Country of Origin'', detected = False, field_value = None,
                       icon = ''globe''\<rparr>,
                 Some \<lparr>name = ''Manufacturing Date'', detected = False, field_value = None,
                       icon = ''calendar''\<rparr>]
            \<and> distinct (map (map_option name \<circ> asComplianceField) xs)"
proof -
  have reads: "get_prop d P_score = Inr None" "get_prop d P_extracted_text = Inr None"
    "get_prop d P_fields = Inr None" "get_prop d P_status = Inr None"
    using assms(4-8) by (simp_all add: not_carries_get_prop)
  have cr: "complianceResult c d =
      Inr \<lparr>score = JNum (Fin 0), extractedText = JStr [],
           result_fields = defaultFields, status = JStr ''fail''\<rparr>"
    by (simp add: complianceResult_eq [OF reads] derive_status_absent [OF reads(1)])
  have cc: "checkCompliance c fetch file =
      \<lparr>success = True,
       data = Some \<lparr>score = JNum (Fin 0), extractedText = JStr [],
                    result_fields = defaultFields, status = JStr ''fail''\<rparr>,
       error = None\<rparr>"
    using checkCompliance_ok [of fetch "file" resp d c] assms(1-3)
    by (simp add: cr respond_def)
  obtain xs where xs: "defaultFields = JArr xs"
    by (simp add: defaultFields_def)
  have "distinct (map (map_option name \<circ> asComplianceField) xs)"
    using defaultFields_typed [OF xs] xs
    by (auto simp: defaultFields_def asComplianceField_def)
  then show ?thesis
    using cc xs defaultFields_typed [OF xs] by auto
qed

theorem empty_body_default_result_witness:
  "network (Inr (ok_response (JObj []))) () = Inr (ok_response (JObj []))
   \<and> ok (ok_response (JObj []))
   \<and> json_body (ok_response (JObj [])) = Inr (JObj [])
   \<and> JObj [] \<noteq> JNull
   \<and> \<not> carries (JObj []) P_score \<and> \<not> carries (JObj []) P_extracted_text
   \<and> \<not> carries (JObj []) P_fields \<and> \<not> carries (JObj []) P_status
   \<and> checkCompliance nan_coercion (network (Inr (ok_response (JObj [])))) ()
       = \<lparr>success = True,
          data = Some \<lparr>score = JNum (Fin 0), extractedText = JStr [],
                       result_fields = defaultFields, status = JStr ''fail''\<rparr>,
          error = None\<rparr>"
  using empty_body_default_result
    [of "network (Inr (ok_response (JObj [])))" "()" "ok_response (JObj [])" "JObj []"
        nan_coercion]
  by (auto simp: network_def ok_response_def carries_def)

text \<open>
  The claim as the specification words it fails on the body \<^verbatim>\<open>null\<close>: it parses,
  carries none of the four properties, and the first property read throws, so the
  call reports a failure.
\<close>

theorem null_body_counterexample:
  "\<not> carries JNull P_score \<and> \<not> carries JNull P_extracted_text
   \<and> \<not> carries JNull P_fields \<and> \<not> carries JNull P_status
   \<and> checkCompliance nan_coercion (network (Inr (ok_response JNull))) ()
       = \<lparr>success = False, data = None,
          error = Some (''Cannot read properties of null (reading '' @ [CHR 0x27] @ ''score''
                        @ [CHR 0x27] @ '')'')\<rparr>"
  by (simp add: carries_def checkCompliance_def checkCompliance_try_def network_def
        ok_response_def complianceResult_def respond_def)

subsection \<open>No marker of provenance\<close>

text \<open>
  C7, as the client does it. A ComplianceResult holds a score, a text, a field list
  and a status, and nothing that tells where they came from: the result built from
  the built-in field list (the body brings no truthy field list) equals the result
  for the same body with that very list sent by the server.
\<close>

theorem fallback_indistinguishable:
  assumes "fetch file = Inr resp" "ok resp" "json_body resp = Inr (JObj kvs)"
    and "\<not> truthy (map_of kvs ''fields'')"
    and "fetch' file = Inr resp'" "ok resp'"
    and "json_body resp' = Inr (JObj ((''fields'', defaultFields) # kvs))"
  shows "checkCompliance c fetch' file = checkCompliance c fetch file"
proof -
  have df: "truthy (Some defaultFields)"
    by (simp add: defaultFields_def)
  have ds: "derive_status c (JObj ((''fields'', defaultFields) # kvs)) = derive_status c (JObj kvs)"
    using derive_status_eq [of "JObj ((''fields'', defaultFields) # kvs)" "map_of kvs ''score''" c]
      derive_status_eq [of "JObj kvs" "map_of kvs ''score''" c]
    by simp
  have "or_else (map_of kvs ''fields'') defaultFields = defaultFields"
    using assms(4) by (cases "map_of kvs ''fields''") auto
  then have "complianceResult c (JObj ((''fields'', defaultFields) # kvs))
           = complianceResult c (JObj kvs)"
    using df by (simp add: complianceResult_def ds)
  then show ?thesis
    using checkCompliance_ok [of fetch "file" resp "JObj kvs" c] assms(1-3)
      checkCompliance_ok [of fetch' "file" resp' "JObj ((''fields'', defaultFields) # kvs)" c]
      assms(5-7)
    by simp
qed

theorem fallback_indistinguishable_witness:
  "network (Inr (ok_response (JObj [(''score'', JNum (Fin 0))]))) ()
     = Inr (ok_response (JObj [(''score'', JNum (Fin 0))]))
   \<and> ok (ok_response (JObj [(''score'', JNum (Fin 0))]))
   \<and> \<not> truthy (map_of [(''score'', JNum (Fin 0))] ''fields'')
   \<and> network (Inr (ok_response (JObj [(''fields'', defaultFields), (''score'', JNum (Fin 0))]))) ()
     = Inr (ok_response (JObj [(''fields'', defaultFields), (''score'', JNum (Fin 0))]))
   \<and> checkCompliance nan_coercion
        (network (Inr (ok_response (JObj [(''fields'', defaultFields), (''score'', JNum (Fin 0))])))) ()
     = checkCompliance nan_coercion
        (network (Inr (ok_response (JObj [(''score'', JNum (Fin 0))])))) ()"
  using fallback_indistinguishable
    [of "network (Inr (ok_response (JObj [(''score'', JNum (Fin 0))])))" "()"
        "ok_response (JObj [(''score'', JNum (Fin 0))])" "[(''score'', JNum (Fin 0))]"
        "network (Inr (ok_response (JObj [(''fields'', defaultFields), (''score'', JNum (Fin 0))])))"
        "ok_response (JObj [(''fields'', defaultFields), (''score'', JNum (Fin 0))])"
        nan_coercion]
  by (simp add: network_def ok_response_def)

text \<open>
  The claim as the specification words it fails: a body without a field list, for
  which the client falls back to its built-in list, and a body in which the server
  itself reports these five fields give the same successful value.
\<close>

theorem no_marker_counterexample:
  "\<not> carries (JObj []) P_fields
   \<and> carries (JObj [(''fields'', defaultFields)]) P_fields
   \<and> success (checkCompliance nan_coercion (network (Inr (ok_response (JObj [])))) ()) = True
   \<and> checkCompliance nan_coercion (network (Inr (ok_response (JObj [])))) ()
     = checkCompliance nan_coercion
         (network (Inr (ok_response (JObj [(''fields'', defaultFields)])))) ()"
  by (simp add: carries_def checkCompliance_def checkCompliance_try_def network_def
        ok_response_def complianceResult_def derive_status_def js_ge_def respond_def
        defaultFields_def)

subsection \<open>Every outcome is a returned value\<close>

text \<open>
  C8. Whatever the file and whatever the network does, the call returns a value and
  does not throw. When \<^verbatim>\<open>fetch\<close> throws, when the response is not ok and when the body
  does not parse, the thrown value reaches the catch block and the call returns a
  failure with its message and no data. When the body parses, the call returns
  success with the result built from the body and no error, or, when building the
  result throws, a failure with that message and no data. So the returned value is
  always a success with data and no error or a failure with an error and no data, and
  success holds exactly when the data field is present.
\<close>

theorem checkCompliance_total:
  "(fetch file = Inl e \<longrightarrow>
      checkCompliance c fetch file =
        \<lparr>success = False, data = None, error = Some (error_message e)\<rparr>)
   \<and> (fetch file = Inr resp \<and> \<not> ok resp \<longrightarrow>
      checkCompliance c fetch file =
        \<lparr>success = False, data = None,
         error = Some (''HTTP error! status: '' @ decimal (status_code resp))\<rparr>)
   \<and> (fetch file = Inr resp \<and> ok resp \<and> json_body resp = Inl e \<longrightarrow>
      checkCompliance c fetch file =
        \<lparr>success = False, data = None, error = Some (error_message e)\<rparr>)
   \<and> (fetch file = Inr resp \<and> ok resp \<and> json_body resp = Inr d \<longrightarrow>
      (\<exists>cr. complianceResult c d = Inr cr
          \<and> checkCompliance c fetch file = \<lparr>success = True, data = Some cr, error = None\<rparr>)
    \<or> (\<exists>x. complianceResult c d = Inl x
          \<and> checkCompliance c fetch file =
              \<lparr>success = False, data = None, error = Some (error_message x)\<rparr>))
   \<and> ((\<exists>cr. checkCompliance c fetch file = \<lparr>success = True, data = Some cr, error = None\<rparr>)
    \<or> (\<exists>m. checkCompliance c fetch file = \<lparr>success = False, data = None, error = Some m\<rparr>))
   \<and> (success (checkCompliance c fetch file) \<longleftrightarrow> data (checkCompliance c fetch file) \<noteq> None)"
proof -
  have a: "fetch file = Inl e \<longrightarrow>
      checkCompliance c fetch file =
        \<lparr>success = False, data = None, error = Some (error_message e)\<rparr>"
    by (simp add: checkCompliance_def checkCompliance_try_def respond_def)
  have b: "fetch file = Inr resp \<and> \<not> ok resp \<longrightarrow>
      checkCompliance c fetch file =
        \<lparr>success = False, data = None,
         error = Some (''HTTP error! status: '' @ decimal (status_code resp))\<rparr>"
    by (simp add: checkCompliance_def checkCompliance_try_def respond_def)
  have j: "fetch file = Inr resp \<and> ok resp \<and> json_body resp = Inl e \<longrightarrow>
      checkCompliance c fetch file =
        \<lparr>success = False, data = None, error = Some (error_message e)\<rparr>"
    by (simp add: checkCompliance_def checkCompliance_try_def respond_def)
  have k: "fetch file = Inr resp \<and> ok resp \<and> json_body resp = Inr d \<longrightarrow>
      (\<exists>cr. complianceResult c d = Inr cr
          \<and> checkCompliance c fetch file = \<lparr>success = True, data = Some cr, error = None\<rparr>)
    \<or> (\<exists>x. complianceResult c d = Inl x
          \<and> checkCompliance c fetch file =
              \<lparr>success = False, data = None, error = Some (error_message x)\<rparr>)"
    by (cases "complianceResult c d")
       (simp_all add: checkCompliance_def checkCompliance_try_def respond_def)
  have v: "(\<exists>cr. checkCompliance c fetch file = \<lparr>success = True, data = Some cr, error = None\<rparr>)
    \<or> (\<exists>m. checkCompliance c fetch file = \<lparr>success = False, data = None, error = Some m\<rparr>)"
    by (cases "checkCompliance_try c fetch file") (simp_all add: checkCompliance_def respond_def)
  have s: "success (checkCompliance c fetch file) \<longleftrightarrow> data (checkCompliance c fetch file) \<noteq> None"
    by (cases "checkCompliance_try c fetch file") (simp_all add: checkCompliance_def respond_def)
  from a b j k v s show ?thesis by blast
qed

theorem checkCompliance_total_witness:
  "checkCompliance nan_coercion (network (Inl (ErrorObj ''Failed to fetch''))) ()
     = \<lparr>success = False, data = None, error = Some ''Failed to fetch''\<rparr>
   \<and> checkCompliance nan_coercion
       (network (Inr \<lparr>ok = False, status_code = 500, json_body = Inr (JObj []),
                      text_body = Inr ''Server Error''\<rparr>)) ()
     = \<lparr>success = False, data = None, error = Some ''HTTP error! status: 500''\<rparr>
   \<and> checkCompliance nan_coercion
       (network (Inr \<lparr>ok = True, status_code = 200,
                      json_body = Inl (ErrorObj ''Unexpected end of JSON input''),
                      text_body = Inr []\<rparr>)) ()
     = \<lparr>success = False, data = None, error = Some ''Unexpected end of JSON input''\<rparr>
   \<and> checkCompliance nan_coercion
       (network (Inr (ok_response (JObj [(''score'', JNum (Fin 75)), (''status'', JStr ''pass'')])))) ()
     = \<lparr>success = True,
        data = Some \<lparr>score = JNum (Fin 75), extractedText = JStr [],
                     result_fields = defaultFields, status = JStr ''pass''\<rparr>,
        error = None\<rparr>
   \<and> success (checkCompliance nan_coercion (network (Inr (ok_response JNull))) ()) = False
   \<and> data (checkCompliance nan_coercion (network (Inr (ok_response JNull))) ()) = None"
  using
    checkCompliance_total
      [of "network (Inl (ErrorObj ''Failed to fetch''))" "()" "ErrorObj ''Failed to fetch''"
          nan_coercion "ok_response JNull" JNull]
    checkCompliance_total
      [of "network (Inr \<lparr>ok = False, status_code = 500, json_body = Inr (JObj []),
                         text_body = Inr ''Server Error''\<rparr>)" "()" NonError nan_coercion
          "\<lparr>ok = False, status_code = 500, json_body = Inr (JObj []),
            text_body = Inr ''Server Error''\<rparr>" "JObj []"]
    checkCompliance_total
      [of "network (Inr \<lparr>ok = True, status_code = 200,
                         json_body = Inl (ErrorObj ''Unexpected end of JSON input''),
                         text_body = Inr []\<rparr>)" "()"
          "ErrorObj ''Unexpected end of JSON input''" nan_coercion
          "\<lparr>ok = True, status_code = 200,
            json_body = Inl (ErrorObj ''Unexpected end of JSON input''), text_body = Inr []\<rparr>"
          JNull]
    checkCompliance_total
      [of "network (Inr (ok_response (JObj [(''score'', JNum (Fin 75)), (''status'', JStr ''pass'')])))"
          "()" NonError nan_coercion
          "ok_response (JObj [(''score'', JNum (Fin 75)), (''status'', JStr ''pass'')])"
          "JObj [(''score'', JNum (Fin 75)), (''status'', JStr ''pass'')]"]
    checkCompliance_total
      [of "network (Inr (ok_response JNull))" "()" NonError nan_coercion
          "ok_response JNull" JNull]
  by (simp add: network_def ok_response_def complianceResult_def decimal.simps)

subsection \<open>The two implementations\<close>

text \<open>
  C9. The two implementations of checkCompliance return the same success flag and the
  same data on every outcome, and the same value altogether unless the response is
  not ok, where only the error message differs.
\<close>

theorem variants_agree:
  "success (checkCompliance_variant c fetch file) = success (checkCompliance c fetch file)
   \<and> data (checkCompliance_variant c fetch file) = data (checkCompliance c fetch file)
   \<and> (checkCompliance_variant c fetch file = checkCompliance c fetch file
      \<or> (\<exists>resp. fetch file = Inr resp \<and> \<not> ok resp))"
proof (cases "fetch file")
  case (Inl e)
  then show ?thesis
    by (simp add: checkCompliance_def checkCompliance_variant_def checkCompliance_try_def
          checkCompliance_variant_try_def)
next
  case (Inr resp)
  then show ?thesis
    by (cases "text_body resp")
       (simp_all add: checkCompliance_def checkCompliance_variant_def checkCompliance_try_def
          checkCompliance_variant_try_def respond_def)
qed

theorem variants_agree_witness:
  "ok (ok_response (JObj [(''score'', JNum (Fin 75))]))
   \<and> checkCompliance_variant nan_coercion
        (network (Inr (ok_response (JObj [(''score'', JNum (Fin 75))])))) ()
     = checkCompliance nan_coercion
        (network (Inr (ok_response (JObj [(''score'', JNum (Fin 75))])))) ()"
  using variants_agree
    [of nan_coercion "network (Inr (ok_response (JObj [(''score'', JNum (Fin 75))])))" "()"]
  by (simp add: network_def ok_response_def)

subsection \<open>Detected and missing fields\<close>

lemma filter_js_Inr:
  "filter_js p xs = Inr ys \<Longrightarrow>
   ys = filter (\<lambda>x. p x = Inr True) xs \<and> (\<forall>x \<in> set xs. \<exists>b. p x = Inr b)"
  by (induction xs arbitrary: ys) (auto split: sum.splits if_splits)

lemma is_missing_iff:
  "is_detected x = Inr b \<Longrightarrow> is_missing x = Inr True \<longleftrightarrow> is_detected x \<noteq> Inr True"
  by (cases "get_prop x P_detected") (auto simp: is_detected_def is_missing_def)

lemma fields_filter_Inr: "fields_filter p v = Inr ys \<Longrightarrow> \<exists>xs. v = JArr xs"
  by (cases v) auto

text \<open>
  C10. Whenever ComplianceResults computes its two lists without throwing, the
  fields are an array, and the detected and the missing fields split it: together
  they hold each entry as often as the array does, no entry is in both, each list
  keeps the order of the array, and the two lengths add up to the length of the array.
\<close>

theorem fields_partition:
  assumes "detectedFields result = Inr ds" "missingFields result = Inr ms"
  shows "\<exists>xs. result_fields result = JArr xs
            \<and> mset ds + mset ms = mset xs
            \<and> set ds \<inter> set ms = {}
            \<and> subseq ds xs \<and> subseq ms xs
            \<and> length ds + length ms = length xs"
proof -
  obtain xs where xs: "result_fields result = JArr xs"
    using assms(1) fields_filter_Inr unfolding detectedFields_def by blast
  have d: "ds = filter (\<lambda>x. is_detected x = Inr True) xs"
    and def: "\<forall>x \<in> set xs. \<exists>b. is_detected x = Inr b"
    using assms(1) filter_js_Inr [of is_detected xs ds] by (simp_all add: detectedFields_def xs)
  have "ms = filter (\<lambda>x. is_missing x = Inr True) xs"
    using assms(2) filter_js_Inr [of is_missing xs ms] by (simp add: missingFields_def xs)
  also have "\<dots> = filter (\<lambda>x. \<not> is_detected x = Inr True) xs"
    using def by (intro filter_cong refl) (auto simp: is_missing_iff)
  finally have m: "ms = filter (\<lambda>x. \<not> is_detected x = Inr True) xs" .
  have "mset ds + mset ms = mset xs"
    unfolding d m by (induction xs) auto
  moreover have "set ds \<inter> set ms = {}"
    unfolding d m by auto
  moreover have "subseq ds xs" "subseq ms xs"
    unfolding d m by simp_all
  moreover have "length ds + length ms = length xs"
    unfolding d m by (rule sum_length_filter_compl)
  ultimately show ?thesis
    using xs by blast
qed

theorem fields_partition_witness:
  "detectedFields \<lparr>score = JNum (Fin 20), extractedText = JStr ''MRP'',
       result_fields = JArr [JObj [(''name'', JStr ''MRP''), (''detected'', JBool True)],
                             JObj [(''name'', JStr ''Net Quantity''), (''detected'', JBool False)]],
       status = JStr ''fail''\<rparr>
     = Inr [JObj [(''name'', JStr ''MRP''), (''detected'', JBool True)]]
   \<and> missingFields \<lparr>score = JNum (Fin 20), extractedText = JStr ''MRP'',
       result_fields = JArr [JObj [(''name'', JStr ''MRP''), (''detected'', JBool True)],
                             JObj [(''name'', JStr ''Net Quantity''), (''detected'', JBool False)]],
       status = JStr ''fail''\<rparr>
     = Inr [JObj [(''name'', JStr ''Net Quantity''), (''detected'', JBool False)]]
   \<and> subseq [JObj [(''name'', JStr ''Net Quantity''), (''detected'', JBool False)]]
        [JObj [(''name'', JStr ''MRP''), (''detected'', JBool True)],
         JObj [(''name'', JStr ''Net Quantity''), (''detected'', JBool False)]]"
  using fields_partition
    [of "\<lparr>score = JNum (Fin 20), extractedText = JStr ''MRP'',
       result_fields = JArr [JObj [(''name'', JStr ''MRP''), (''detected'', JBool True)],
                             JObj [(''name'', JStr ''Net Quantity''), (''detected'', JBool False)]],
       status = JStr ''fail''\<rparr>"
      "[JObj [(''name'', JStr ''MRP''), (''detected'', JBool True)]]"
      "[JObj [(''name'', JStr ''Net Quantity''), (''detected'', JBool False)]]"]
  by (simp add: detectedFields_def missingFields_def is_detected_def is_missing_def)

text \<open>
  The two lists are computed without a throw whenever the fields are an array without
  a \<^verbatim>\<open>null\<close> entry, as they are for every list of \<^verbatim>\<open>ComplianceField\<close> objects.
\<close>

lemma filter_js_defined:
  "\<forall>x \<in> set xs. \<exists>b. p x = Inr b \<Longrightarrow> \<exists>ys. filter_js p xs = Inr ys"
  by (induction xs) auto

lemma fields_lists_defined:
  assumes "result_fields result = JArr xs" "JNull \<notin> set xs"
  shows "\<exists>ds ms. detectedFields result = Inr ds \<and> missingFields result = Inr ms"
proof -
  have "\<forall>x \<in> set xs. \<exists>v. get_prop x P_detected = Inr v"
  proof
    fix x assume "x \<in> set xs"
    with assms(2) have "x \<noteq> JNull" by auto
    then show "\<exists>v. get_prop x P_detected = Inr v" by (cases x) auto
  qed
  then have "\<forall>x \<in> set xs. \<exists>b. is_detected x = Inr b"
    and "\<forall>x \<in> set xs. \<exists>b. is_missing x = Inr b"
    by (auto simp: is_detected_def is_missing_def)
  then show ?thesis
    using filter_js_defined [of xs is_detected] filter_js_defined [of xs is_missing]
    by (simp add: detectedFields_def missingFields_def assms(1))
qed

end
